theory Spec2Isabelle
  imports Main
begin

section \<open>Data model\<close>

text \<open>
  The repository is two scripts, \<^verbatim>\<open>updatedashboardpermissions.py\<close> and
  \<^verbatim>\<open>updatemonitor permissions.py\<close>, that talk to four remote services through
  the platform's client library. Identifiers (dashboard, monitor, user and team ids) are
  strings. An exception of Python is a value of \<open>error\<close>; every function returns
  \<open>error + 'a\<close>, with \<open>Inl\<close> for a raised exception, together with the world
  it leaves behind.
\<close>

datatype error =
    KeyError string
  | IndexError
  | ApiAttributeError string
  | ApiException string

type_synonym 'a result = "error + 'a"

subsection \<open>Audit-log search\<close>

datatype audit_sort = TIMESTAMP_ASCENDING | TIMESTAMP_DESCENDING

record audit_filter =
  filter_from :: string
  query :: string
  filter_to :: string

record audit_options =
  time_offset :: int
  timezone :: string

record audit_page =
  limit :: int
  cursor :: "string option"

record audit_request =
  req_filter :: audit_filter
  req_options :: "audit_options option"
  req_page :: "audit_page option"
  req_sort :: "audit_sort option"

text \<open>
  \<open>event.attributes.attributes\<close> is a dictionary of dictionaries
  (\<open>'asset'\<close> and \<open>'user'\<close> each map to a dictionary with an \<open>'id'\<close>).
\<close>

record audit_event =
  attributes :: "(string \<times> (string \<times> string) list) list"

text \<open>
  An optional attribute of one of the client library's response objects. The response may
  leave it out (\<open>Unset\<close>), carry an explicit null (\<open>Null\<close>) or carry a value.
  Reading an attribute that was left out raises the library's
  \<^verbatim>\<open>ApiAttributeError\<close>; reading a null gives \<^verbatim>\<open>None\<close>.
\<close>

datatype 'a attr = Unset | Null | Value 'a

definition read_attr :: "string \<Rightarrow> 'a attr \<Rightarrow> 'a option result" where
  "read_attr name a =
     (case a of
        Unset \<Rightarrow> Inl (ApiAttributeError name)
      | Null \<Rightarrow> Inr None
      | Value v \<Rightarrow> Inr (Some v))"

record audit_meta_page =
  after :: "string attr"

record audit_meta =
  meta_page :: "audit_meta_page attr"

record audit_response =
  data :: "audit_event list"
  meta :: "audit_meta attr"

subsection \<open>Teams, monitors, restriction policies\<close>

record team =
  team_id :: string

record monitor =
  tags :: "string list"

datatype restriction_policy_type = RESTRICTION_POLICY

record restriction_policy_binding =
  relation :: string
  principals :: "string list"

record restriction_policy_attributes =
  bindings :: "restriction_policy_binding list"

record restriction_policy =
  policy_id :: string
  policy_type :: restriction_policy_type
  policy_attributes :: restriction_policy_attributes

record restriction_policy_update_request =
  request_data :: restriction_policy

subsection \<open>The remote services and the world\<close>

text \<open>
  The four external services are parameters of the model. Each answers a request with a
  response or with an exception. \<open>get_monitor\<close> stands for
  \<^verbatim>\<open>api_instance.get_monitor(int(monitor_id))\<close>, the conversion included.
\<close>

record services =
  search_audit_logs :: "audit_request \<Rightarrow> audit_response result"
  get_user_memberships :: "string \<Rightarrow> team list result"
  list_teams :: "string \<Rightarrow> team list result"
  get_monitor :: "string \<Rightarrow> monitor result"
  update_restriction_policy :: "string \<Rightarrow> restriction_policy_update_request \<Rightarrow> error option"

datatype call =
    SearchAuditLogs audit_request
  | GetUserMemberships string
  | ListTeams string
  | GetMonitor string
  | UpdateRestrictionPolicy string restriction_policy_update_request

text \<open>The lines the scripts print, one constructor for each \<^verbatim>\<open>print\<close> of the source.\<close>

datatype log_line =
    NoUserFound string
  | NoTeamFoundForUser string string
  | PermissionsSet string
  | FailedToProcess string error
  | NoneCreated
  | ErrorOccurred error
  | ErrorFetchingMemberships string error
  | ErrorFetchingTeam error
  | TeamNotFoundForMonitor string

text \<open>
  The world: the policies held by the restriction-policy service, the remote calls issued
  so far and the lines printed so far, both oldest first.
\<close>

record world =
  policies :: "string \<rightharpoonup> restriction_policy"
  calls :: "call list"
  printed :: "log_line list"

definition print :: "log_line \<Rightarrow> world \<Rightarrow> world" where
  "print l w = w\<lparr>printed := printed w @ [l]\<rparr>"

definition called :: "call \<Rightarrow> world \<Rightarrow> world" where
  "called c w = w\<lparr>calls := calls w @ [c]\<rparr>"

text \<open>Python's truth value of a string or \<^verbatim>\<open>None\<close>: only a non-empty string is true.\<close>

fun truthy :: "string option \<Rightarrow> bool" where
  "truthy None = False"
| "truthy (Some s) = (s \<noteq> [])"

section \<open>Permission Writer\<close>

text \<open>
  Modelled from the spec: the restriction-policy service is an external collaborator whose
  code is not in the repository. The spec describes its write as an upsert keyed by the
  resource reference that replaces any existing policy in full, without merging.
\<close>

definition upsert_policy ::
  "(string \<rightharpoonup> restriction_policy) \<Rightarrow> string \<Rightarrow> restriction_policy_update_request
     \<Rightarrow> (string \<rightharpoonup> restriction_policy)" where
  "upsert_policy store resource_id body = store(resource_id \<mapsto> request_data body)"

text \<open>
  \<^verbatim>\<open>api_instance.update_restriction_policy(resource_id=..., body=body)\<close>: the call is
  issued; the service either raises or stores the policy.
\<close>

definition api_update_restriction_policy ::
  "services \<Rightarrow> string \<Rightarrow> restriction_policy_update_request \<Rightarrow> world \<Rightarrow> unit result \<times> world" where
  "api_update_restriction_policy svcs resource_id body w =
     (let w1 = called (UpdateRestrictionPolicy resource_id body) w in
      case update_restriction_policy svcs resource_id body of
        Some e \<Rightarrow> (Inl e, w1)
      | None \<Rightarrow> (Inr (), w1\<lparr>policies := upsert_policy (policies w1) resource_id body\<rparr>))"

definition set_dashboard_permissions ::
  "services \<Rightarrow> string \<Rightarrow> string \<Rightarrow> world \<Rightarrow> unit result \<times> world" where
  "set_dashboard_permissions svcs team_uuid dashboard_id w =
     (let body = \<lparr>request_data = \<lparr>
            policy_id = ''dashboard:'' @ dashboard_id,
            policy_type = RESTRICTION_POLICY,
            policy_attributes = \<lparr>bindings = [
              \<lparr>relation = ''editor'',
               principals = [''team:'' @ team_uuid,
                             ''role:e5091040-1d03-11ef-9dbc-da7ad0900005'']\<rparr>,
              \<lparr>relation = ''viewer'',
               principals = [''org:e4f8bb8c-1d03-11ef-9b95-da7ad0900005'']\<rparr>]\<rparr>\<rparr>\<rparr>
      in api_update_restriction_policy svcs (''dashboard:'' @ dashboard_id) body w)"

definition set_monitor_permissions ::
  "services \<Rightarrow> string \<Rightarrow> string \<Rightarrow> world \<Rightarrow> unit result \<times> world" where
  "set_monitor_permissions svcs team_uuid monitor_id w =
     (let body = \<lparr>request_data = \<lparr>
            policy_id = ''monitor:'' @ monitor_id,
            policy_type = RESTRICTION_POLICY,
            policy_attributes = \<lparr>bindings = [
              \<lparr>relation = ''editor'',
               principals = [''team:'' @ team_uuid,
                             ''role:e5091040-1d03-11ef-9dbc-da7ad0900005'']\<rparr>,
              \<lparr>relation = ''viewer'',
               principals = [''org:e4f8bb8c-1d03-11ef-9b95-da7ad0900005'']\<rparr>]\<rparr>\<rparr>\<rparr>
      in api_update_restriction_policy svcs (''monitor:'' @ monitor_id) body w)"

subsection \<open>Exceptions and loops\<close>

text \<open>
  \<^verbatim>\<open>try: body except Exception as e: handler\<close>. Every value of \<open>error\<close> is an
  \<^verbatim>\<open>Exception\<close>, so the handler takes them all.
\<close>

definition try_except ::
  "'a result \<times> world \<Rightarrow> (error \<Rightarrow> world \<Rightarrow> 'a result \<times> world) \<Rightarrow> 'a result \<times> world" where
  "try_except body handler =
     (case body of (Inl e, w) \<Rightarrow> handler e w | (Inr v, w) \<Rightarrow> (Inr v, w))"

text \<open>
  \<^verbatim>\<open>for x in xs: body\<close>: an exception that leaves the body leaves the loop, and the
  remaining elements are not visited.
\<close>

fun for_each ::
  "('a \<Rightarrow> world \<Rightarrow> unit result \<times> world) \<Rightarrow> 'a list \<Rightarrow> world \<Rightarrow> unit result \<times> world" where
  "for_each body [] w = (Inr (), w)"
| "for_each body (x # xs) w =
     (case body x w of (Inl e, w1) \<Rightarrow> (Inl e, w1) | (Inr u, w1) \<Rightarrow> for_each body xs w1)"

section \<open>Change Detector\<close>

definition api_search_audit_logs ::
  "services \<Rightarrow> audit_request \<Rightarrow> world \<Rightarrow> audit_response result \<times> world" where
  "api_search_audit_logs svcs body w = (search_audit_logs svcs body, called (SearchAuditLogs body) w)"

text \<open>\<^verbatim>\<open>event.attributes.attributes['asset']['id']\<close>: a missing key raises.\<close>

definition asset_id :: "audit_event \<Rightarrow> string result" where
  "asset_id event =
     (case map_of (attributes event) ''asset'' of
        None \<Rightarrow> Inl (KeyError ''asset'')
      | Some asset \<Rightarrow>
          (case map_of asset ''id'' of None \<Rightarrow> Inl (KeyError ''id'') | Some i \<Rightarrow> Inr i))"

text \<open>The list comprehension over \<open>response.data\<close>; the first failing event raises.\<close>

fun asset_ids :: "audit_event list \<Rightarrow> string list result" where
  "asset_ids [] = Inr []"
| "asset_ids (event # events) =
     (case asset_id event of
        Inl e \<Rightarrow> Inl e
      | Inr i \<Rightarrow> (case asset_ids events of Inl e \<Rightarrow> Inl e | Inr ids \<Rightarrow> Inr (i # ids)))"

text \<open>The request body the dashboard loop builds on each iteration.\<close>

definition dashboard_search_body :: "string option \<Rightarrow> audit_request" where
  "dashboard_search_body next_page_token =
     \<lparr>req_filter = \<lparr>filter_from = ''now-1m'',
                   query = ''@evt.name:Dashboard AND @action:created'',
                   filter_to = ''now''\<rparr>,
      req_options = Some \<lparr>time_offset = 0, timezone = ''GMT''\<rparr>,
      req_page = Some \<lparr>limit = 10, cursor = next_page_token\<rparr>,
      req_sort = Some TIMESTAMP_ASCENDING\<rparr>"

text \<open>
  \<^verbatim>\<open>response.meta.page.after if response.meta and response.meta.page and
  response.meta.page.after else None\<close>. The condition reads \<open>meta\<close>, then
  \<open>page\<close>, then \<open>after\<close>, and stops at the first that is false; each read
  raises when the attribute was left out of the response. A response object is true, a
  null is false, a cursor is true when it is a non-empty string.
\<close>

definition page_after :: "audit_response \<Rightarrow> string option result" where
  "page_after response =
     (case read_attr ''meta'' (meta response) of
        Inl e \<Rightarrow> Inl e
      | Inr None \<Rightarrow> Inr None
      | Inr (Some m) \<Rightarrow>
          (case read_attr ''page'' (meta_page m) of
             Inl e \<Rightarrow> Inl e
           | Inr None \<Rightarrow> Inr None
           | Inr (Some p) \<Rightarrow>
               (case read_attr ''after'' (after p) of
                  Inl e \<Rightarrow> Inl e
                | Inr a \<Rightarrow> (if truthy a then Inr a else Inr None))))"

text \<open>
  The \<^verbatim>\<open>while True\<close> loop of \<open>get_dashboards_created_last_minute\<close>, with its two
  variables as arguments. Nothing bounds the number of iterations, so the loop is a
  partial function: \<open>None\<close> is the run that never returns.
\<close>

partial_function (option) dashboard_pages ::
  "services \<Rightarrow> string option \<Rightarrow> string list \<Rightarrow> world \<Rightarrow> (string list result \<times> world) option" where
  "dashboard_pages svcs next_page_token dashboard_ids w =
     (case api_search_audit_logs svcs (dashboard_search_body next_page_token) w of
        (Inl e, w1) \<Rightarrow> Some (Inl e, w1)
      | (Inr response, w1) \<Rightarrow>
          (case asset_ids (data response) of
             Inl e \<Rightarrow> Some (Inl e, w1)
           | Inr ids \<Rightarrow>
               (let dashboard_ids1 = dashboard_ids @ ids in
                case page_after response of
                  Inl e \<Rightarrow> Some (Inl e, w1)
                | Inr next_page_token1 \<Rightarrow>
                    if \<not> truthy next_page_token1 then Some (Inr dashboard_ids1, w1)
                    else dashboard_pages svcs next_page_token1 dashboard_ids1 w1)))"

definition get_dashboards_created_last_minute ::
  "services \<Rightarrow> world \<Rightarrow> (string list result \<times> world) option" where
  "get_dashboards_created_last_minute svcs w = dashboard_pages svcs None [] w"

definition monitor_search_body :: audit_request where
  "monitor_search_body =
     \<lparr>req_filter = \<lparr>filter_from = ''now-1m'',
                   query = ''@evt.name:Monitor AND @action:created'',
                   filter_to = ''now''\<rparr>,
      req_options = Some \<lparr>time_offset = 0, timezone = ''GMT''\<rparr>,
      req_page = Some \<lparr>limit = 10, cursor = None\<rparr>,
      req_sort = Some TIMESTAMP_ASCENDING\<rparr>"

definition get_monitors_created_last_minute ::
  "services \<Rightarrow> world \<Rightarrow> string list result \<times> world" where
  "get_monitors_created_last_minute svcs w =
     (case api_search_audit_logs svcs monitor_search_body w of
        (Inl e, w1) \<Rightarrow> (Inl e, w1)
      | (Inr response, w1) \<Rightarrow>
          (case asset_ids (data response) of
             Inl e \<Rightarrow> (Inl e, w1)
           | Inr monitor_ids \<Rightarrow> (Inr monitor_ids, w1)))"

section \<open>Owner Resolver\<close>

definition creator_search_body :: "string \<Rightarrow> audit_request" where
  "creator_search_body dashboard_id =
     \<lparr>req_filter = \<lparr>filter_from = ''now-1m'',
                   query = ''@evt.name:Dashboard AND @action:created AND @asset.id:'' @ dashboard_id,
                   filter_to = ''now''\<rparr>,
      req_options = None,
      req_page = None,
      req_sort = None\<rparr>"

text \<open>
  The \<^verbatim>\<open>for\<close> loop returns at its first event, with
  \<^verbatim>\<open>attributes.get('user', {}).get('id')\<close>; with no event the function falls off its
  end and returns \<^verbatim>\<open>None\<close>. No exception is caught here.
\<close>

definition get_dashboard_creator_user_id ::
  "services \<Rightarrow> string \<Rightarrow> world \<Rightarrow> string option result \<times> world" where
  "get_dashboard_creator_user_id svcs dashboard_id w =
     (case api_search_audit_logs svcs (creator_search_body dashboard_id) w of
        (Inl e, w1) \<Rightarrow> (Inl e, w1)
      | (Inr response, w1) \<Rightarrow>
          (case data response of
             [] \<Rightarrow> (Inr None, w1)
           | event # rest \<Rightarrow>
               (Inr (case map_of (attributes event) ''user'' of
                       None \<Rightarrow> None
                     | Some user \<Rightarrow> map_of user ''id''), w1)))"

text \<open>Python's \<^verbatim>\<open>s.split(sep)\<close> for a one-character separator.\<close>

fun str_split :: "char \<Rightarrow> string \<Rightarrow> string list" where
  "str_split sep [] = [[]]"
| "str_split sep (c # cs) =
     (if c = sep then [] # str_split sep cs
      else (case str_split sep cs of [] \<Rightarrow> [[c]] | p # ps \<Rightarrow> (c # p) # ps))"

text \<open>\<^verbatim>\<open>xs[i]\<close> for \<open>i \<ge> 0\<close>: out of range raises.\<close>

definition index :: "'a list \<Rightarrow> nat \<Rightarrow> 'a result" where
  "index xs i = (if i < length xs then Inr (xs ! i) else Inl IndexError)"

text \<open>
  The dictionary comprehension
  \<^verbatim>\<open>{item.split(":")[0]: item.split(":")[1] for item in response.tags}\<close>:
  items are taken in order, the key is evaluated before the value, and a later item
  overwrites an earlier one with the same key.
\<close>

fun tags_dict :: "string list \<Rightarrow> (string \<rightharpoonup> string) \<Rightarrow> (string \<rightharpoonup> string) result" where
  "tags_dict [] d = Inr d"
| "tags_dict (item # items) d =
     (case index (str_split CHR '':'' item) 0 of
        Inl e \<Rightarrow> Inl e
      | Inr k \<Rightarrow>
          (case index (str_split CHR '':'' item) 1 of
             Inl e \<Rightarrow> Inl e
           | Inr v \<Rightarrow> tags_dict items (d(k \<mapsto> v))))"

definition api_get_monitor :: "services \<Rightarrow> string \<Rightarrow> world \<Rightarrow> monitor result \<times> world" where
  "api_get_monitor svcs monitor_id w = (get_monitor svcs monitor_id, called (GetMonitor monitor_id) w)"

definition get_monitor_team :: "services \<Rightarrow> string \<Rightarrow> world \<Rightarrow> string result \<times> world" where
  "get_monitor_team svcs monitor_id w =
     (case api_get_monitor svcs monitor_id w of
        (Inl e, w1) \<Rightarrow> (Inl e, w1)
      | (Inr response, w1) \<Rightarrow>
          (case tags_dict (tags response) Map.empty of
             Inl e \<Rightarrow> (Inl e, w1)
           | Inr tags_d \<Rightarrow>
               (case tags_d ''team'' of
                  None \<Rightarrow> (Inl (KeyError ''team''), w1)
                | Some t \<Rightarrow> (Inr t, w1))))"

section \<open>Team Identity Lookup\<close>

definition api_get_user_memberships :: "services \<Rightarrow> string \<Rightarrow> world \<Rightarrow> team list result \<times> world" where
  "api_get_user_memberships svcs user_id w =
     (get_user_memberships svcs user_id, called (GetUserMemberships user_id) w)"

definition api_list_teams :: "services \<Rightarrow> string \<Rightarrow> world \<Rightarrow> team list result \<times> world" where
  "api_list_teams svcs team_name w = (list_teams svcs team_name, called (ListTeams team_name) w)"

text \<open>
  \<^verbatim>\<open>for team in response.data: return team.id\<close>: the first element, or falling off
  the end of the function, which returns \<^verbatim>\<open>None\<close>.
\<close>

definition first_team_id :: "team list \<Rightarrow> string option" where
  "first_team_id response_data = (case response_data of [] \<Rightarrow> None | t # rest \<Rightarrow> Some (team_id t))"

definition get_team_uuid_by_user_id ::
  "services \<Rightarrow> string \<Rightarrow> world \<Rightarrow> string option result \<times> world" where
  "get_team_uuid_by_user_id svcs user_id w =
     try_except
       (case api_get_user_memberships svcs user_id w of
          (Inl e, w1) \<Rightarrow> (Inl e, w1)
        | (Inr response_data, w1) \<Rightarrow> (Inr (first_team_id response_data), w1))
       (\<lambda>e w1. (Inr None, print (ErrorFetchingMemberships user_id e) w1))"

definition get_team_uuid_by_name ::
  "services \<Rightarrow> string \<Rightarrow> world \<Rightarrow> string option result \<times> world" where
  "get_team_uuid_by_name svcs team_name w =
     try_except
       (case api_list_teams svcs team_name w of
          (Inl e, w1) \<Rightarrow> (Inl e, w1)
        | (Inr response_data, w1) \<Rightarrow> (Inr (first_team_id response_data), w1))
       (\<lambda>e w1. (Inr None, print (ErrorFetchingTeam e) w1))"

section \<open>Orchestrators\<close>

text \<open>The body of the \<^verbatim>\<open>for\<close> loop of the dashboard script's \<open>lambda_handler\<close>.\<close>

definition process_dashboard :: "services \<Rightarrow> string \<Rightarrow> world \<Rightarrow> unit result \<times> world" where
  "process_dashboard svcs dashboard_id w =
     try_except
       (case get_dashboard_creator_user_id svcs dashboard_id w of
          (Inl e, w1) \<Rightarrow> (Inl e, w1)
        | (Inr user_id, w1) \<Rightarrow>
            if \<not> truthy user_id then (Inr (), print (NoUserFound dashboard_id) w1)
            else
              (case get_team_uuid_by_user_id svcs (the user_id) w1 of
                 (Inl e, w2) \<Rightarrow> (Inl e, w2)
               | (Inr team_uuid, w2) \<Rightarrow>
                   if \<not> truthy team_uuid
                   then (Inr (), print (NoTeamFoundForUser (the user_id) dashboard_id) w2)
                   else
                     (case set_dashboard_permissions svcs (the team_uuid) dashboard_id w2 of
                        (Inl e, w3) \<Rightarrow> (Inl e, w3)
                      | (Inr u, w3) \<Rightarrow> (Inr (), print (PermissionsSet dashboard_id) w3))))
       (\<lambda>dashboard_error w1. (Inr (), print (FailedToProcess dashboard_id dashboard_error) w1))"

definition lambda_handler_dashboard :: "services \<Rightarrow> world \<Rightarrow> world option" where
  "lambda_handler_dashboard svcs w =
     (case get_dashboards_created_last_minute svcs w of
        None \<Rightarrow> None
      | Some fetched \<Rightarrow>
          Some (snd (try_except
            (case fetched of
               (Inl e, w1) \<Rightarrow> (Inl e, w1)
             | (Inr dashboard_ids, w1) \<Rightarrow>
                 if dashboard_ids \<noteq> [] then for_each (process_dashboard svcs) dashboard_ids w1
                 else (Inr (), print NoneCreated w1))
            (\<lambda>e w1. (Inr (), print (ErrorOccurred e) w1)))))"

text \<open>The body of the \<^verbatim>\<open>for\<close> loop of the monitor script's \<open>lambda_handler\<close>.\<close>

definition process_monitor :: "services \<Rightarrow> string \<Rightarrow> world \<Rightarrow> unit result \<times> world" where
  "process_monitor svcs monitor_id w =
     (case get_monitor_team svcs monitor_id w of
        (Inl e, w1) \<Rightarrow> (Inl e, w1)
      | (Inr team_name, w1) \<Rightarrow>
          (case get_team_uuid_by_name svcs team_name w1 of
             (Inl e, w2) \<Rightarrow> (Inl e, w2)
           | (Inr team_uuid, w2) \<Rightarrow>
               if truthy team_uuid then
                 (case set_monitor_permissions svcs (the team_uuid) monitor_id w2 of
                    (Inl e, w3) \<Rightarrow> (Inl e, w3)
                  | (Inr u, w3) \<Rightarrow> (Inr (), print (PermissionsSet monitor_id) w3))
               else (Inr (), print (TeamNotFoundForMonitor monitor_id) w2)))"

definition lambda_handler_monitor :: "services \<Rightarrow> world \<Rightarrow> world" where
  "lambda_handler_monitor svcs w =
     snd (try_except
       (case get_monitors_created_last_minute svcs w of
          (Inl e, w1) \<Rightarrow> (Inl e, w1)
        | (Inr monitor_ids, w1) \<Rightarrow>
            if monitor_ids \<noteq> [] then for_each (process_monitor svcs) monitor_ids w1
            else (Inr (), print NoneCreated w1))
       (\<lambda>e w1. (Inr (), print (ErrorOccurred e) w1)))"

section \<open>Vocabulary of the properties\<close>

text \<open>
  The cursor of a response as the loop reads it: \<open>None\<close> when the response carries
  a null or an empty cursor, and also when reading it raises.
\<close>

definition cursor_of :: "audit_response \<Rightarrow> string option" where
  "cursor_of response = (case page_after response of Inl e \<Rightarrow> None | Inr c \<Rightarrow> c)"

text \<open>
  An audit log that holds the pages \<open>rs\<close>, linked by cursors: asked with the cursor
  \<open>cur\<close> it answers with the first page; every page but the last carries the cursor
  of the next one, and the last page carries a null or an empty cursor.
\<close>

fun serves_pages :: "services \<Rightarrow> string option \<Rightarrow> audit_response list \<Rightarrow> bool" where
  "serves_pages svcs cur [] = False"
| "serves_pages svcs cur [r] =
     (search_audit_logs svcs (dashboard_search_body cur) = Inr r \<and> page_after r = Inr None)"
| "serves_pages svcs cur (r # r2 # rs) =
     (search_audit_logs svcs (dashboard_search_body cur) = Inr r
      \<and> (case page_after r of
            Inr (Some c) \<Rightarrow> serves_pages svcs (Some c) (r2 # rs)
          | Inr None \<Rightarrow> False
          | Inl e \<Rightarrow> False))"

text \<open>
  The cursor the loop takes from the answer to a request with cursor \<open>cur\<close>
  (\<open>None\<close> when the request or the reading raises), and the sequence of cursors the
  dashboard loop sends: the first request carries \<open>None\<close>, request \<open>n + 1\<close> the
  cursor taken from the answer to request \<open>n\<close>.
\<close>

definition next_cursor :: "services \<Rightarrow> string option \<Rightarrow> string option" where
  "next_cursor svcs cur =
     (case search_audit_logs svcs (dashboard_search_body cur) of
        Inl e \<Rightarrow> None
      | Inr response \<Rightarrow> cursor_of response)"

definition nth_cursor :: "services \<Rightarrow> nat \<Rightarrow> string option" where
  "nth_cursor svcs n = (next_cursor svcs ^^ n) None"

subsection \<open>Sample services\<close>

definition empty_world :: world where
  "empty_world = \<lparr>policies = Map.empty, calls = [], printed = []\<rparr>"

definition event :: "string \<Rightarrow> string \<Rightarrow> audit_event" where
  "event asset user =
     \<lparr>attributes = [(''asset'', [(''id'', asset)]), (''user'', [(''id'', user)])]\<rparr>"

definition page :: "audit_event list \<Rightarrow> string option \<Rightarrow> audit_response" where
  "page events c =
     \<lparr>data = events,
      meta = Value \<lparr>meta_page = Value \<lparr>after = (case c of None \<Rightarrow> Null | Some a \<Rightarrow> Value a)\<rparr>\<rparr>\<rparr>"

text \<open>
  Three dashboards on two pages and ten monitors on a first page; dashboard \<open>d2\<close> has
  no creation event, user \<open>u3\<close> is in no team, user \<open>u2\<close> is unknown; monitor
  \<open>1\<close> has two team tags, monitor \<open>2\<close> a tag without a colon.
\<close>

definition demo_services :: services where
  "demo_services =
     \<lparr>search_audit_logs = (\<lambda>body.
        if body = dashboard_search_body None
          then Inr (page [event ''d1'' ''u1'', event ''d2'' ''u2''] (Some ''p2''))
        else if body = dashboard_search_body (Some ''p2'')
          then Inr (page [event ''d3'' ''u3''] None)
        else if body = monitor_search_body
          then Inr (page (map (\<lambda>m. event m ''u1'')
                 [''1'', ''2'', ''11'', ''12'', ''13'', ''14'', ''15'', ''16'', ''17'', ''18'']) (Some ''m2''))
        else if body = creator_search_body ''d1'' then Inr (page [event ''d1'' ''u1''] None)
        else if body = creator_search_body ''d2'' then Inr (page [] None)
        else if body = creator_search_body ''d3'' then Inr (page [event ''d3'' ''u3''] None)
        else Inl (ApiException ''400'')),
      get_user_memberships = (\<lambda>user_id.
        if user_id = ''u1'' then Inr [\<lparr>team_id = ''t1''\<rparr>, \<lparr>team_id = ''t2''\<rparr>]
        else if user_id = ''u3'' then Inr []
        else Inl (ApiException ''404'')),
      list_teams = (\<lambda>team_name.
        if team_name = ''core'' then Inr [\<lparr>team_id = ''t1''\<rparr>, \<lparr>team_id = ''t2''\<rparr>]
        else if team_name = ''ghost'' then Inr []
        else Inl (ApiException ''500'')),
      get_monitor = (\<lambda>monitor_id.
        if monitor_id = ''1''
          then Inr \<lparr>tags = [''env:prod'', ''team:core'', ''team:ghost:eu'', ''tier:1'']\<rparr>
        else if monitor_id = ''2'' then Inr \<lparr>tags = [''team:core'', ''production'']\<rparr>
        else Inl (ApiException ''404'')),
      update_restriction_policy = (\<lambda>resource_id body. None)\<rparr>"

text \<open>
  An audit log that answers every request with an empty page and a cursor one character
  longer than the one it was asked with.
\<close>

definition endless_audit_log :: services where
  "endless_audit_log =
     \<lparr>search_audit_logs = (\<lambda>body. Inr \<lparr>data = [], meta = Value \<lparr>meta_page = Value \<lparr>after =
         Value (CHR ''c'' # (case req_page body of
                              None \<Rightarrow> []
                            | Some p \<Rightarrow> (case cursor p of None \<Rightarrow> [] | Some c \<Rightarrow> c)))\<rparr>\<rparr>\<rparr>),
      get_user_memberships = (\<lambda>user_id. Inr []),
      list_teams = (\<lambda>team_name. Inr []),
      get_monitor = (\<lambda>monitor_id. Inr \<lparr>tags = []\<rparr>),
      update_restriction_policy = (\<lambda>resource_id body. None)\<rparr>"

text \<open>
  One dashboard on a single page; the page has its \<open>meta.page\<close>, from which the
  \<open>after\<close> attribute is left out, as on the last page of a result.
\<close>

definition absent_cursor_log :: services where
  "absent_cursor_log =
     \<lparr>search_audit_logs = (\<lambda>body.
        Inr \<lparr>data = [event ''d1'' ''u1''], meta = Value \<lparr>meta_page = Value \<lparr>after = Unset\<rparr>\<rparr>\<rparr>),
      get_user_memberships = (\<lambda>user_id. Inr [\<lparr>team_id = ''t1''\<rparr>]),
      list_teams = (\<lambda>team_name. Inr [\<lparr>team_id = ''t1''\<rparr>]),
      get_monitor = (\<lambda>monitor_id. Inr \<lparr>tags = [''team:core'']\<rparr>),
      update_restriction_policy = (\<lambda>resource_id body. None)\<rparr>"

text \<open>
  Two resources \<open>1\<close> and \<open>2\<close>, both with a creator, a team tag and a team; the
  restriction-policy service refuses the write for resource \<open>1\<close> and accepts any other.
\<close>

definition failing_writer :: services where
  "failing_writer =
     \<lparr>search_audit_logs = (\<lambda>body. Inr (page [event ''1'' ''u1'', event ''2'' ''u1''] None)),
      get_user_memberships = (\<lambda>user_id. Inr [\<lparr>team_id = ''t1''\<rparr>]),
      list_teams = (\<lambda>team_name. Inr [\<lparr>team_id = ''t1''\<rparr>]),
      get_monitor = (\<lambda>monitor_id. Inr \<lparr>tags = [''team:core'']\<rparr>),
      update_restriction_policy = (\<lambda>resource_id body.
        if resource_id = ''monitor:1'' \<or> resource_id = ''dashboard:1''
        then Some (ApiException ''403'') else None)\<rparr>"

section \<open>Properties of the Permission Writer\<close>

lemmas evaluation_defs =
  process_monitor_def process_dashboard_def
  get_monitor_team_def get_team_uuid_by_name_def get_team_uuid_by_user_id_def
  get_dashboard_creator_user_id_def set_monitor_permissions_def set_dashboard_permissions_def
  get_monitors_created_last_minute_def
  api_search_audit_logs_def api_get_monitor_def api_list_teams_def
  api_get_user_memberships_def api_update_restriction_policy_def
  try_except_def first_team_id_def index_def upsert_policy_def
  called_def print_def page_def event_def asset_id_def empty_world_def
  monitor_search_body_def creator_search_body_def dashboard_search_body_def page_after_def
  read_attr_def cursor_of_def Let_def

lemma api_update_calls:
  "calls (snd (api_update_restriction_policy svcs rid body w))
     = calls w @ [UpdateRestrictionPolicy rid body]"
  by (simp add: api_update_restriction_policy_def called_def Let_def split: option.split)

lemma api_update_twice:
  "policies (snd (api_update_restriction_policy svcs rid body
                    (snd (api_update_restriction_policy svcs rid body w))))
     = policies (snd (api_update_restriction_policy svcs rid body w))"
  by (simp add: api_update_restriction_policy_def called_def upsert_policy_def Let_def
      split: option.split)

text \<open>
  Claim C5. For every team id \<open>T\<close> and resource id \<open>R\<close>, the writer issues exactly one
  upsert, for the resource \<open>dashboard:R\<close> (dashboard script) or \<open>monitor:R\<close> (monitor
  script); the policy it sends has that id and exactly two bindings: \<open>editor\<close> for the
  team \<open>team:T\<close> and the fixed role, \<open>viewer\<close> for the fixed organisation.
\<close>

theorem permission_writer_policy_shape:
  "(\<exists>body. calls (snd (set_dashboard_permissions svcs T R w))
            = calls w @ [UpdateRestrictionPolicy (''dashboard:'' @ R) body]
        \<and> policy_id (request_data body) = ''dashboard:'' @ R
        \<and> bindings (policy_attributes (request_data body)) =
            [\<lparr>relation = ''editor'',
              principals = [''team:'' @ T, ''role:e5091040-1d03-11ef-9dbc-da7ad0900005'']\<rparr>,
             \<lparr>relation = ''viewer'',
              principals = [''org:e4f8bb8c-1d03-11ef-9b95-da7ad0900005'']\<rparr>])
   \<and> (\<exists>body. calls (snd (set_monitor_permissions svcs T R w))
            = calls w @ [UpdateRestrictionPolicy (''monitor:'' @ R) body]
        \<and> policy_id (request_data body) = ''monitor:'' @ R
        \<and> bindings (policy_attributes (request_data body)) =
            [\<lparr>relation = ''editor'',
              principals = [''team:'' @ T, ''role:e5091040-1d03-11ef-9dbc-da7ad0900005'']\<rparr>,
             \<lparr>relation = ''viewer'',
              principals = [''org:e4f8bb8c-1d03-11ef-9b95-da7ad0900005'']\<rparr>])"
  unfolding set_dashboard_permissions_def set_monitor_permissions_def Let_def
  by (simp only: api_update_calls) simp

text \<open>
  Claim C6. The writer is idempotent. The upsert it issues is the same whatever the world
  and the services are (it depends on the team id and the resource id alone); called twice
  in a row it issues that upsert twice, and the policies held after the second call are
  those held after the first. Both scripts.
\<close>

theorem permission_writer_idempotent:
  "last (calls (snd (set_dashboard_permissions svcs T R w)))
     = last (calls (snd (set_dashboard_permissions svcs' T R w')))
   \<and> calls (snd (set_dashboard_permissions svcs T R (snd (set_dashboard_permissions svcs T R w))))
     = calls w @ [last (calls (snd (set_dashboard_permissions svcs T R w))),
                  last (calls (snd (set_dashboard_permissions svcs T R w)))]
   \<and> policies (snd (set_dashboard_permissions svcs T R (snd (set_dashboard_permissions svcs T R w))))
     = policies (snd (set_dashboard_permissions svcs T R w))
   \<and> last (calls (snd (set_monitor_permissions svcs T R w)))
     = last (calls (snd (set_monitor_permissions svcs' T R w')))
   \<and> calls (snd (set_monitor_permissions svcs T R (snd (set_monitor_permissions svcs T R w))))
     = calls w @ [last (calls (snd (set_monitor_permissions svcs T R w))),
                  last (calls (snd (set_monitor_permissions svcs T R w)))]
   \<and> policies (snd (set_monitor_permissions svcs T R (snd (set_monitor_permissions svcs T R w))))
     = policies (snd (set_monitor_permissions svcs T R w))"
  unfolding set_dashboard_permissions_def set_monitor_permissions_def Let_def
  by (simp only: api_update_calls api_update_twice last_snoc append_assoc append_Cons append_Nil
      simp_thms)

section \<open>Properties of the Team Identity Lookup\<close>

text \<open>
  Claim C8. \<open>get_team_uuid_by_name\<close> issues one team search for the keyword. It returns
  the id of the first team of the result, \<open>None\<close> when the result is empty, and, when
  the search raises, \<open>None\<close> after printing the error; it never raises itself.
\<close>

theorem get_team_uuid_by_name_first_or_none:
  "(list_teams svcs name = Inr (t # ts) \<longrightarrow>
      get_team_uuid_by_name svcs name w = (Inr (Some (team_id t)), called (ListTeams name) w))
 \<and> (list_teams svcs name = Inr [] \<longrightarrow>
      get_team_uuid_by_name svcs name w = (Inr None, called (ListTeams name) w))
 \<and> (list_teams svcs name = Inl e \<longrightarrow>
      get_team_uuid_by_name svcs name w
        = (Inr None, print (ErrorFetchingTeam e) (called (ListTeams name) w)))
 \<and> (\<exists>v. fst (get_team_uuid_by_name svcs name w) = Inr v)"
  by (simp add: get_team_uuid_by_name_def try_except_def api_list_teams_def first_team_id_def
      split: sum.split list.split)

theorem get_team_uuid_by_name_first_or_none_witness:
  "list_teams demo_services ''core'' = Inr [\<lparr>team_id = ''t1''\<rparr>, \<lparr>team_id = ''t2''\<rparr>]
   \<and> get_team_uuid_by_name demo_services ''core'' empty_world
     = (Inr (Some ''t1''), called (ListTeams ''core'') empty_world)
   \<and> list_teams demo_services ''ghost'' = Inr []
   \<and> get_team_uuid_by_name demo_services ''ghost'' empty_world
     = (Inr None, called (ListTeams ''ghost'') empty_world)
   \<and> list_teams demo_services ''lost'' = Inl (ApiException ''500'')
   \<and> get_team_uuid_by_name demo_services ''lost'' empty_world
     = (Inr None, print (ErrorFetchingTeam (ApiException ''500''))
                    (called (ListTeams ''lost'') empty_world))"
  using get_team_uuid_by_name_first_or_none
      [of demo_services "''core''" "\<lparr>team_id = ''t1''\<rparr>" "[\<lparr>team_id = ''t2''\<rparr>]" empty_world]
    get_team_uuid_by_name_first_or_none [of demo_services "''ghost''" _ _ empty_world]
    get_team_uuid_by_name_first_or_none
      [of demo_services "''lost''" _ _ empty_world "ApiException ''500''"]
  by (simp add: demo_services_def)

lemma get_team_uuid_by_user_id_never_raises:
  "\<exists>v. fst (get_team_uuid_by_user_id svcs user_id w) = Inr v"
  by (simp add: get_team_uuid_by_user_id_def try_except_def api_get_user_memberships_def
      split: sum.split)

text \<open>
  Claim C10. \<open>get_team_uuid_by_user_id\<close> issues one membership listing for the user. It
  returns the id of the first membership, \<open>None\<close> when the list is empty, and, when the
  listing raises, \<open>None\<close> after printing the error; it never raises itself.
\<close>

theorem get_team_uuid_by_user_id_first_or_none:
  "(get_user_memberships svcs user_id = Inr (t # ts) \<longrightarrow>
      get_team_uuid_by_user_id svcs user_id w
        = (Inr (Some (team_id t)), called (GetUserMemberships user_id) w))
 \<and> (get_user_memberships svcs user_id = Inr [] \<longrightarrow>
      get_team_uuid_by_user_id svcs user_id w = (Inr None, called (GetUserMemberships user_id) w))
 \<and> (get_user_memberships svcs user_id = Inl e \<longrightarrow>
      get_team_uuid_by_user_id svcs user_id w
        = (Inr None, print (ErrorFetchingMemberships user_id e)
                       (called (GetUserMemberships user_id) w)))
 \<and> (\<exists>v. fst (get_team_uuid_by_user_id svcs user_id w) = Inr v)"
  by (simp add: get_team_uuid_by_user_id_def try_except_def api_get_user_memberships_def
      first_team_id_def split: sum.split list.split)

theorem get_team_uuid_by_user_id_first_or_none_witness:
  "get_user_memberships demo_services ''u1'' = Inr [\<lparr>team_id = ''t1''\<rparr>, \<lparr>team_id = ''t2''\<rparr>]
   \<and> get_team_uuid_by_user_id demo_services ''u1'' empty_world
     = (Inr (Some ''t1''), called (GetUserMemberships ''u1'') empty_world)
   \<and> get_user_memberships demo_services ''u3'' = Inr []
   \<and> get_team_uuid_by_user_id demo_services ''u3'' empty_world
     = (Inr None, called (GetUserMemberships ''u3'') empty_world)
   \<and> get_user_memberships demo_services ''u2'' = Inl (ApiException ''404'')
   \<and> get_team_uuid_by_user_id demo_services ''u2'' empty_world
     = (Inr None, print (ErrorFetchingMemberships ''u2'' (ApiException ''404''))
                    (called (GetUserMemberships ''u2'') empty_world))"
  using get_team_uuid_by_user_id_first_or_none
      [of demo_services "''u1''" "\<lparr>team_id = ''t1''\<rparr>" "[\<lparr>team_id = ''t2''\<rparr>]" empty_world]
    get_team_uuid_by_user_id_first_or_none [of demo_services "''u3''" _ _ empty_world]
    get_team_uuid_by_user_id_first_or_none
      [of demo_services "''u2''" _ _ empty_world "ApiException ''404''"]
  by (simp add: demo_services_def)

section \<open>Properties of the Owner Resolver\<close>

lemma str_split_not_Nil: "str_split c s \<noteq> []"
  by (induction s) (auto split: list.split)

lemma str_split_no_sep: "c \<notin> set s \<Longrightarrow> str_split c s = [s]"
  by (induction s) auto

lemma str_split_at_sep: "c \<notin> set a \<Longrightarrow> str_split c (a @ c # r) = a # str_split c r"
  by (induction a) auto

lemma hd_str_split: "hd (str_split c s) = takeWhile (\<lambda>x. x \<noteq> c) s"
  by (induction s) (auto split: list.split simp: str_split_not_Nil)

lemma length_str_split: "c \<in> set s \<Longrightarrow> 2 \<le> length (str_split c s)"
proof -
  assume "c \<in> set s"
  then obtain a r where s: "s = a @ c # r" and "c \<notin> set a"
    by (meson split_list_first)
  then have "str_split c s = a # str_split c r" by (simp add: str_split_at_sep)
  moreover have "str_split c r \<noteq> []" by (rule str_split_not_Nil)
  ultimately show ?thesis by (cases "str_split c r") auto
qed

lemma index_0_str_split: "index (str_split c s) 0 = Inr (hd (str_split c s))"
  using str_split_not_Nil [of c s] by (cases "str_split c s") (auto simp: index_def)

lemma index_1_no_sep: "c \<notin> set s \<Longrightarrow> index (str_split c s) (Suc 0) = Inl IndexError"
  by (simp add: str_split_no_sep index_def)

lemma index_1_sep: "c \<in> set s \<Longrightarrow> index (str_split c s) (Suc 0) = Inr (str_split c s ! 1)"
  using length_str_split [of c s] by (simp add: index_def)

lemma tags_dict_IndexError:
  "\<exists>tag \<in> set items. CHR '':'' \<notin> set tag \<Longrightarrow> tags_dict items d = Inl IndexError"
proof (induction items arbitrary: d)
  case Nil
  then show ?case by simp
next
  case (Cons item items)
  show ?case
  proof (cases "CHR '':'' \<in> set item")
    case True
    with Cons.prems have "\<exists>tag \<in> set items. CHR '':'' \<notin> set tag" by auto
    then show ?thesis
      using True by (simp add: index_0_str_split index_1_sep Cons.IH)
  next
    case False
    then show ?thesis by (simp add: index_0_str_split index_1_no_sep)
  qed
qed

lemma tags_dict_append:
  "tags_dict (xs @ ys) d = (case tags_dict xs d of Inl e \<Rightarrow> Inl e | Inr d1 \<Rightarrow> tags_dict ys d1)"
  by (induction xs arbitrary: d) (auto split: sum.split)

lemma tags_dict_other_keys:
  "\<forall>t \<in> set items. CHR '':'' \<in> set t \<Longrightarrow>
   \<forall>t \<in> set items. hd (str_split CHR '':'' t) \<noteq> k \<Longrightarrow>
   \<exists>d1. tags_dict items d = Inr d1 \<and> d1 k = d k"
proof (induction items arbitrary: d)
  case Nil
  then show ?case by simp
next
  case (Cons item items)
  let ?d = "d(hd (str_split CHR '':'' item) \<mapsto> str_split CHR '':'' item ! 1)"
  from Cons.prems have a: "\<forall>t \<in> set items. CHR '':'' \<in> set t"
    and b: "\<forall>t \<in> set items. hd (str_split CHR '':'' t) \<noteq> k" by auto
  from Cons.IH [OF a b, of ?d] obtain d1 where "tags_dict items ?d = Inr d1" and "d1 k = ?d k"
    by blast
  moreover have "?d k = d k" using Cons.prems by auto
  ultimately show ?case
    using Cons.prems by (simp add: index_0_str_split index_1_sep)
qed

lemma tags_dict_total:
  "\<forall>t \<in> set items. CHR '':'' \<in> set t \<Longrightarrow> \<exists>d1. tags_dict items d = Inr d1"
  by (induction items arbitrary: d) (simp_all add: index_0_str_split index_1_sep)

lemma key_not_team:
  assumes "CHR '':'' \<in> set p" and "take 5 p \<noteq> ''team:''"
  shows "hd (str_split CHR '':'' p) \<noteq> ''team''"
proof
  assume h: "hd (str_split CHR '':'' p) = ''team''"
  from assms(1) obtain a r where p: "p = a @ CHR '':'' # r" and a: "CHR '':'' \<notin> set a"
    by (meson split_list_first)
  then have "hd (str_split CHR '':'' p) = a" by (simp add: str_split_at_sep)
  with h p have "p = ''team:'' @ r" by simp
  with assms(2) show False by simp
qed

lemma team_tag_split:
  assumes "CHR '':'' \<notin> set v" and "rest = [] \<or> hd rest = CHR '':''"
  shows "index (str_split CHR '':'' (''team:'' @ v @ rest)) 0 = Inr ''team''"
    and "index (str_split CHR '':'' (''team:'' @ v @ rest)) (Suc 0) = Inr v"
proof -
  have "str_split CHR '':'' (''team:'' @ v @ rest) = ''team'' # str_split CHR '':'' (v @ rest)"
    using str_split_at_sep [of "CHR '':''" "''team''" "v @ rest"] by simp
  moreover have "\<exists>ps. str_split CHR '':'' (v @ rest) = v # ps"
  proof (cases rest)
    case Nil
    then show ?thesis using assms(1) by (simp add: str_split_no_sep)
  next
    case (Cons c r)
    with assms(2) have "rest = CHR '':'' # r" by simp
    then show ?thesis using assms(1) by (simp add: str_split_at_sep)
  qed
  ultimately show "index (str_split CHR '':'' (''team:'' @ v @ rest)) 0 = Inr ''team''"
    and "index (str_split CHR '':'' (''team:'' @ v @ rest)) (Suc 0) = Inr v"
    by (auto simp: index_def)
qed

lemma tags_dict_last_key:
  assumes "\<forall>t \<in> set pre. CHR '':'' \<in> set t" and "\<forall>t \<in> set post. CHR '':'' \<in> set t"
    and k: "index (str_split CHR '':'' t) 0 = Inr k"
    and v: "index (str_split CHR '':'' t) (Suc 0) = Inr v"
    and "\<forall>p \<in> set post. hd (str_split CHR '':'' p) \<noteq> k"
  shows "\<exists>d1. tags_dict (pre @ t # post) d = Inr d1 \<and> d1 k = Some v"
proof -
  from assms(1) obtain d0 where d0: "tags_dict pre d = Inr d0"
    using tags_dict_total [of pre d] by blast
  from tags_dict_other_keys [OF assms(2) assms(5), of "d0(k \<mapsto> v)"]
  obtain d1 where "tags_dict post (d0(k \<mapsto> v)) = Inr d1" and "d1 k = (d0(k \<mapsto> v)) k"
    by blast
  then show ?thesis
    using d0 k v by (simp add: tags_dict_append)
qed

lemma tags_dict_last_team:
  assumes "\<forall>t \<in> set (pre @ post). CHR '':'' \<in> set t"
    and "CHR '':'' \<notin> set v" and "rest = [] \<or> hd rest = CHR '':''"
    and "\<forall>p \<in> set post. take 5 p \<noteq> ''team:''"
  shows "\<exists>d1. tags_dict (pre @ [''team:'' @ v @ rest] @ post) d = Inr d1 \<and> d1 ''team'' = Some v"
proof -
  have pre: "\<forall>t \<in> set pre. CHR '':'' \<in> set t" and post: "\<forall>t \<in> set post. CHR '':'' \<in> set t"
    using assms(1) by auto
  have keys: "\<forall>p \<in> set post. hd (str_split CHR '':'' p) \<noteq> ''team''"
    using post assms(4) key_not_team by blast
  have "\<exists>d1. tags_dict (pre @ (''team:'' @ v @ rest) # post) d = Inr d1 \<and> d1 ''team'' = Some v"
    by (rule tags_dict_last_key
          [OF pre post team_tag_split(1) [OF assms(2,3)] team_tag_split(2) [OF assms(2,3)] keys])
  then show ?thesis by (simp only: append_Cons append_Nil)
qed

text \<open>
  Claim C9. \<open>get_monitor_team\<close> splits every tag at every colon and keeps the pieces
  at index 0 and 1. A monitor with a tag that has no colon makes it raise IndexError,
  whatever its other tags are. When every other tag has a colon and the last tag with the
  key \<open>team\<close> is \<open>team:v\<close> followed by nothing or by a further colon and more text,
  the result is \<open>v\<close>: the text after a second colon is dropped, and earlier team tags
  are overwritten.
\<close>

theorem get_monitor_team_tag_parsing:
  "(get_monitor svcs m = Inr mon \<and> tag \<in> set (tags mon) \<and> CHR '':'' \<notin> set tag
      \<longrightarrow> get_monitor_team svcs m w = (Inl IndexError, called (GetMonitor m) w))
 \<and> (get_monitor svcs m = Inr mon \<and> tags mon = pre @ [''team:'' @ v @ rest] @ post
      \<and> (\<forall>t \<in> set (pre @ post). CHR '':'' \<in> set t)
      \<and> CHR '':'' \<notin> set v \<and> (rest = [] \<or> hd rest = CHR '':'')
      \<and> (\<forall>p \<in> set post. take 5 p \<noteq> ''team:'')
      \<longrightarrow> get_monitor_team svcs m w = (Inr v, called (GetMonitor m) w))"
proof (intro conjI impI)
  assume "get_monitor svcs m = Inr mon \<and> tag \<in> set (tags mon) \<and> CHR '':'' \<notin> set tag"
  then have g: "get_monitor svcs m = Inr mon" and "\<exists>tag \<in> set (tags mon). CHR '':'' \<notin> set tag"
    by blast+
  then have "tags_dict (tags mon) Map.empty = Inl IndexError"
    by (simp only: tags_dict_IndexError)
  with g show "get_monitor_team svcs m w = (Inl IndexError, called (GetMonitor m) w)"
    by (simp add: get_monitor_team_def api_get_monitor_def)
next
  assume h: "get_monitor svcs m = Inr mon \<and> tags mon = pre @ [''team:'' @ v @ rest] @ post
      \<and> (\<forall>t \<in> set (pre @ post). CHR '':'' \<in> set t)
      \<and> CHR '':'' \<notin> set v \<and> (rest = [] \<or> hd rest = CHR '':'')
      \<and> (\<forall>p \<in> set post. take 5 p \<noteq> ''team:'')"
  then obtain d1 where "tags_dict (tags mon) Map.empty = Inr d1" and "d1 ''team'' = Some v"
    using tags_dict_last_team [of pre post v rest Map.empty] by auto
  with h show "get_monitor_team svcs m w = (Inr v, called (GetMonitor m) w)"
    by (simp add: get_monitor_team_def api_get_monitor_def)
qed

theorem get_monitor_team_tag_parsing_witness:
  "get_monitor_team demo_services ''2'' empty_world
     = (Inl IndexError, called (GetMonitor ''2'') empty_world)
   \<and> get_monitor_team demo_services ''1'' empty_world
     = (Inr ''ghost'', called (GetMonitor ''1'') empty_world)"
  using get_monitor_team_tag_parsing [of demo_services "''2''" "\<lparr>tags = [''team:core'', ''production'']\<rparr>" "''production''"
              empty_world]
    get_monitor_team_tag_parsing [of demo_services "''1''" "\<lparr>tags = [''env:prod'', ''team:core'', ''team:ghost:eu'', ''tier:1'']\<rparr>"
          _ _ "[''env:prod'', ''team:core'']" "''ghost''" "'':eu''" "[''tier:1'']"]
  by (simp add: demo_services_def)

section \<open>Properties of the Change Detector\<close>

lemma truthy_not_None: "truthy x \<Longrightarrow> \<exists>y. x = Some y"
  by (cases x) auto

lemma page_after_truthy: "page_after r = Inr (Some c) \<Longrightarrow> truthy (Some c)"
  by (auto simp: page_after_def read_attr_def split: attr.splits if_splits)

lemma asset_ids_append:
  "asset_ids (xs @ ys) =
     (case asset_ids xs of
        Inl e \<Rightarrow> Inl e
      | Inr a \<Rightarrow> (case asset_ids ys of Inl e \<Rightarrow> Inl e | Inr b \<Rightarrow> Inr (a @ b)))"
  by (induction xs) (auto split: sum.split)

lemma asset_ids_map: "asset_ids evs = Inr ids \<longleftrightarrow> map asset_id evs = map Inr ids"
proof (induction evs arbitrary: ids)
  case Nil
  then show ?case by auto
next
  case (Cons ev evs)
  show ?case
  proof (cases ids)
    case Nil
    then show ?thesis by (auto split: sum.splits)
  next
    case (Cons i js)
    then show ?thesis using Cons.IH [of js] by (auto split: sum.splits)
  qed
qed

lemma dashboard_pages_serves:
  "serves_pages svcs cur rs \<Longrightarrow> asset_ids (concat (map data rs)) = Inr ids \<Longrightarrow>
   dashboard_pages svcs cur acc w =
     Some (Inr (acc @ ids),
           w\<lparr>calls := calls w @ map (SearchAuditLogs \<circ> dashboard_search_body)
                                  (cur # map cursor_of (butlast rs))\<rparr>)"
proof (induction svcs cur rs arbitrary: acc w ids rule: serves_pages.induct)
  case (1 svcs cur)
  then show ?case by simp
next
  case (2 svcs cur r)
  then show ?case
    by (subst dashboard_pages.simps)
       (simp add: api_search_audit_logs_def called_def)
next
  case (3 svcs cur r r2 rs)
  from "3.prems"(2) obtain a b where a: "asset_ids (data r) = Inr a"
    and b: "asset_ids (concat (map data (r2 # rs))) = Inr b" and ids: "ids = a @ b"
    by (auto simp: asset_ids_append split: sum.splits)
  from "3.prems"(1) obtain c where s: "search_audit_logs svcs (dashboard_search_body cur) = Inr r"
    and t: "page_after r = Inr (Some c)" and rest: "serves_pages svcs (Some c) (r2 # rs)"
    by (auto split: sum.splits option.splits)
  have tr: "truthy (Some c)" using t by (rule page_after_truthy)
  show ?case
    using tr
    by (subst dashboard_pages.simps)
       (simp add: api_search_audit_logs_def called_def s a t cursor_of_def
          "3.IH" [OF t refl rest b] ids)
qed

text \<open>
  When the audit log holds the pages \<open>rs\<close> linked by cursors, the last of them with a
  null or an empty cursor, and the events on them have the asset ids \<open>ids\<close>, in page
  order and in the order within each page, \<open>get_dashboards_created_last_minute\<close>
  returns exactly \<open>ids\<close>. It issues one request for each page and no more: the first
  without a cursor, each later one with the cursor of the page before, every one with
  limit 10.
\<close>

lemma dashboard_pagination_with_explicit_end:
  "serves_pages svcs None rs \<and> map asset_id (concat (map data rs)) = map Inr ids \<longrightarrow>
     get_dashboards_created_last_minute svcs w =
       Some (Inr ids,
             w\<lparr>calls := calls w @ map (SearchAuditLogs \<circ> dashboard_search_body)
                                    (None # map cursor_of (butlast rs))\<rparr>)
     \<and> (\<forall>c. req_page (dashboard_search_body c) = Some \<lparr>limit = 10, cursor = c\<rparr>)"
  using dashboard_pages_serves [of svcs None rs ids "[]" w]
  by (simp add: get_dashboards_created_last_minute_def asset_ids_map dashboard_search_body_def)

text \<open>
  A page whose cursor cannot be read makes the loop raise, and the ids collected so far
  are lost.
\<close>

lemma dashboard_pages_unreadable_cursor:
  "search_audit_logs svcs (dashboard_search_body cur) = Inr r \<Longrightarrow>
   asset_ids (data r) = Inr ids \<Longrightarrow> page_after r = Inl e \<Longrightarrow>
   dashboard_pages svcs cur acc w
     = Some (Inl e, called (SearchAuditLogs (dashboard_search_body cur)) w)"
  by (subst dashboard_pages.simps) (simp add: api_search_audit_logs_def)

lemma page_after_unset:
  "page_after \<lparr>data = evs, meta = Unset\<rparr> = Inl (ApiAttributeError ''meta'')"
  "page_after \<lparr>data = evs, meta = Value \<lparr>meta_page = Unset\<rparr>\<rparr> = Inl (ApiAttributeError ''page'')"
  "page_after \<lparr>data = evs, meta = Value \<lparr>meta_page = Value \<lparr>after = Unset\<rparr>\<rparr>\<rparr>
     = Inl (ApiAttributeError ''after'')"
  by (simp_all add: page_after_def read_attr_def)

text \<open>
  Claim C2, at an audit log whose only page leaves the \<open>after\<close> attribute out. The
  guard of the source is meant to turn a missing cursor into \<^verbatim>\<open>None\<close> and stop,
  but reading the attribute raises before the guard can take effect: the function returns
  no id, the exception reaches the outer handler of \<open>lambda_handler\<close>, one error line
  is printed and the dashboard on the page is never processed.
\<close>

theorem dashboard_pagination_raises_on_absent_cursor:
  "get_dashboards_created_last_minute absent_cursor_log empty_world
     = Some (Inl (ApiAttributeError ''after''),
             called (SearchAuditLogs (dashboard_search_body None)) empty_world)
   \<and> map_option printed (lambda_handler_dashboard absent_cursor_log empty_world)
     = Some [ErrorOccurred (ApiAttributeError ''after'')]
   \<and> map_option calls (lambda_handler_dashboard absent_cursor_log empty_world)
     = Some [SearchAuditLogs (dashboard_search_body None)]"
proof -
  have g: "get_dashboards_created_last_minute absent_cursor_log empty_world
     = Some (Inl (ApiAttributeError ''after''),
             called (SearchAuditLogs (dashboard_search_body None)) empty_world)"
    unfolding get_dashboards_created_last_minute_def
    by (rule dashboard_pages_unreadable_cursor
          [where r = "\<lparr>data = [event ''d1'' ''u1''],
                        meta = Value \<lparr>meta_page = Value \<lparr>after = Unset\<rparr>\<rparr>\<rparr>"
             and ids = "[''d1'']"])
       (simp_all add: absent_cursor_log_def page_after_unset event_def asset_id_def)
  have l: "lambda_handler_dashboard absent_cursor_log empty_world
     = Some (print (ErrorOccurred (ApiAttributeError ''after''))
               (called (SearchAuditLogs (dashboard_search_body None)) empty_world))"
    by (simp add: g lambda_handler_dashboard_def try_except_def)
  have e: "printed empty_world = []" "calls empty_world = []"
    by (simp_all add: empty_world_def)
  show ?thesis
    by (simp add: g l print_def called_def e)
qed

lemma dashboard_pages_stops:
  "(next_cursor svcs ^^ Suc n) cur = None \<Longrightarrow> \<exists>res. dashboard_pages svcs cur acc w = Some res"
proof (induction n arbitrary: cur acc w)
  case 0
  then show ?case
    by (subst dashboard_pages.simps)
       (auto simp: next_cursor_def cursor_of_def api_search_audit_logs_def Let_def
          split: sum.splits)
next
  case (Suc n)
  have "(next_cursor svcs ^^ Suc n) (next_cursor svcs cur) = None"
    using Suc.prems by (simp only: funpow_Suc_right o_apply)
  note ih = Suc.IH [OF this]
  show ?case
    by (subst dashboard_pages.simps)
       (use ih in \<open>auto simp: next_cursor_def cursor_of_def api_search_audit_logs_def Let_def
          split: sum.splits\<close>)
qed

lemma dashboard_pages_returns_only_at_end:
  assumes "dashboard_pages svcs cur acc w = Some res"
  shows "fst res = Inr ids \<longrightarrow>
    (\<exists>k r. (\<forall>i<k. (next_cursor svcs ^^ Suc i) cur \<noteq> None)
       \<and> search_audit_logs svcs (dashboard_search_body ((next_cursor svcs ^^ k) cur)) = Inr r
       \<and> page_after r = Inr None)"
  using assms
proof (induction rule: dashboard_pages.raw_induct [rotated 1, consumes 1, case_names step])
  case (step loop svcs cur acc w res)
  show ?case
  proof
    assume ok: "fst res = Inr ids"
    from step(2) ok obtain r a c where r: "search_audit_logs svcs (dashboard_search_body cur) = Inr r"
      and a: "asset_ids (data r) = Inr a" and c: "page_after r = Inr c"
      by (auto simp: api_search_audit_logs_def Let_def split: sum.splits)
    show "\<exists>k r. (\<forall>i<k. (next_cursor svcs ^^ Suc i) cur \<noteq> None)
       \<and> search_audit_logs svcs (dashboard_search_body ((next_cursor svcs ^^ k) cur)) = Inr r
       \<and> page_after r = Inr None"
    proof (cases c)
      case None
      with r c have "(\<forall>i<0. (next_cursor svcs ^^ Suc i) cur \<noteq> None)
       \<and> search_audit_logs svcs (dashboard_search_body ((next_cursor svcs ^^ 0) cur)) = Inr r
       \<and> page_after r = Inr None" by simp
      then show ?thesis by blast
    next
      case (Some x)
      have tr: "truthy (Some x)" using c Some page_after_truthy by blast
      have nc: "next_cursor svcs cur = Some x"
        by (simp add: next_cursor_def cursor_of_def r c Some)
      from step(2) r a c Some tr have
        "loop svcs (Some x) (acc @ a) (called (SearchAuditLogs (dashboard_search_body cur)) w) = Some res"
        by (simp add: api_search_audit_logs_def Let_def)
      from step(1) [OF this] ok obtain k r' where
        k: "\<forall>i<k. (next_cursor svcs ^^ Suc i) (Some x) \<noteq> None"
        and r': "search_audit_logs svcs (dashboard_search_body ((next_cursor svcs ^^ k) (Some x))) = Inr r'"
        and e: "page_after r' = Inr None"
        by blast
      have shift: "\<And>m. (next_cursor svcs ^^ Suc m) cur = (next_cursor svcs ^^ m) (Some x)"
        using nc by (simp only: funpow_Suc_right o_apply)
      have "\<forall>i<Suc k. (next_cursor svcs ^^ Suc i) cur \<noteq> None"
      proof (intro allI impI)
        fix i assume "i < Suc k"
        show "(next_cursor svcs ^^ Suc i) cur \<noteq> None"
        proof (cases i)
          case 0
          then show ?thesis using nc by simp
        next
          case (Suc j)
          with \<open>i < Suc k\<close> have "j < k" by simp
          with k have "(next_cursor svcs ^^ Suc j) (Some x) \<noteq> None" by blast
          then show ?thesis unfolding Suc shift [of "Suc j"] .
        qed
      qed
      moreover have "search_audit_logs svcs
          (dashboard_search_body ((next_cursor svcs ^^ Suc k) cur)) = Inr r'"
        unfolding shift [of k] by (rule r')
      ultimately show ?thesis using e by blast
    qed
  qed
qed

lemma nth_cursor_Suc: "nth_cursor svcs (Suc n) = next_cursor svcs (nth_cursor svcs n)"
  by (simp add: nth_cursor_def)

lemma finitely_many_fresh_cursors_end:
  assumes fin: "finite C"
    and ran: "\<forall>cur c. next_cursor svcs cur = Some c \<longrightarrow> c \<in> C"
    and fresh: "\<forall>i j. i < j \<and> (\<forall>k<j. nth_cursor svcs (Suc k) \<noteq> None)
                  \<longrightarrow> nth_cursor svcs i \<noteq> nth_cursor svcs j"
  shows "\<exists>n. nth_cursor svcs (Suc n) = None"
proof (rule ccontr)
  assume "\<not> (\<exists>n. nth_cursor svcs (Suc n) = None)"
  then have run: "\<forall>n. nth_cursor svcs (Suc n) \<noteq> None" by simp
  have "inj (nth_cursor svcs)"
  proof (rule injI)
    fix i j assume eq: "nth_cursor svcs i = nth_cursor svcs j"
    show "i = j"
    proof (rule ccontr)
      assume "i \<noteq> j"
      then consider "i < j" | "j < i" by linarith
      then show False
        using fresh run eq by cases metis+
    qed
  qed
  moreover have "range (\<lambda>n. nth_cursor svcs (Suc n)) \<subseteq> Some ` C"
  proof
    fix x assume "x \<in> range (\<lambda>n. nth_cursor svcs (Suc n))"
    then obtain n where x: "x = nth_cursor svcs (Suc n)" by blast
    with run obtain c where c: "nth_cursor svcs (Suc n) = Some c" by (metis option.exhaust)
    then have "c \<in> C" using ran by (simp add: nth_cursor_Suc)
    with x c show "x \<in> Some ` C" by simp
  qed
  then have "finite (range (\<lambda>n. nth_cursor svcs (Suc n)))"
    using fin by (meson finite_imageI finite_subset)
  moreover have "inj (\<lambda>n. nth_cursor svcs (Suc n))"
    using \<open>inj (nth_cursor svcs)\<close> by (auto simp: inj_def)
  ultimately show False
    using finite_imageD infinite_UNIV_nat by blast
qed

lemma next_cursor_endless:
  "next_cursor endless_audit_log cur = Some (CHR ''c'' # (case cur of None \<Rightarrow> [] | Some c \<Rightarrow> c))"
  by (simp add: next_cursor_def cursor_of_def endless_audit_log_def dashboard_search_body_def
      page_after_def read_attr_def)

lemma nth_cursor_endless:
  "nth_cursor endless_audit_log n = (if n = 0 then None else Some (replicate n CHR ''c''))"
  by (induction n) (auto simp: nth_cursor_def next_cursor_endless)

lemma inj_endless: "inj (nth_cursor endless_audit_log)"
proof (rule injI)
  fix i j
  assume "nth_cursor endless_audit_log i = nth_cursor endless_audit_log j"
  then have "i = 0 \<and> j = 0 \<or> replicate i CHR ''c'' = replicate j CHR ''c''"
    by (auto simp: nth_cursor_endless split: if_splits)
  then show "i = j"
    by (metis length_replicate)
qed

lemma endless_no_result:
  assumes "dashboard_pages svcs cur acc w = Some res"
  shows "svcs \<noteq> endless_audit_log"
  using assms
proof (induction rule: dashboard_pages.raw_induct [rotated 1, consumes 1, case_names step])
  case (step loop svcs cur acc w res)
  show ?case
  proof
    assume e: "svcs = endless_audit_log"
    let ?c = "CHR ''c'' # (case cur of None \<Rightarrow> [] | Some c \<Rightarrow> c)"
    have "search_audit_logs svcs (dashboard_search_body cur) =
            Inr \<lparr>data = [], meta = Value \<lparr>meta_page = Value \<lparr>after = Value ?c\<rparr>\<rparr>\<rparr>"
      by (simp add: e endless_audit_log_def dashboard_search_body_def)
    with step(2) have
      "loop svcs (Some ?c) acc (called (SearchAuditLogs (dashboard_search_body cur)) w) = Some res"
      by (simp add: api_search_audit_logs_def page_after_def read_attr_def)
    from step(1) [OF this] e show False by simp
  qed
qed

text \<open>
  The bound on the number of cursors in the second part of the next theorem cannot be
  dropped: the cursors of \<open>endless_audit_log\<close> are all different, and on it the loop
  never returns.
\<close>

lemma fresh_cursors_without_bound:
  "(\<forall>i j. i < j \<and> (\<forall>k<j. nth_cursor endless_audit_log (Suc k) \<noteq> None)
            \<longrightarrow> nth_cursor endless_audit_log i \<noteq> nth_cursor endless_audit_log j)
   \<and> get_dashboards_created_last_minute endless_audit_log empty_world = None"
proof
  show "\<forall>i j. i < j \<and> (\<forall>k<j. nth_cursor endless_audit_log (Suc k) \<noteq> None)
            \<longrightarrow> nth_cursor endless_audit_log i \<noteq> nth_cursor endless_audit_log j"
    using inj_endless by (auto simp: inj_def)
  show "get_dashboards_created_last_minute endless_audit_log empty_world = None"
    using endless_no_result [of endless_audit_log None "[]" empty_world]
    by (cases "get_dashboards_created_last_minute endless_audit_log empty_world")
       (auto simp: get_dashboards_created_last_minute_def)
qed

text \<open>
  Claim C3. The loop of \<open>get_dashboards_created_last_minute\<close> does not run forever
  once the service yields no cursor: when the answer to some request of the loop gives no
  next cursor, the function returns (a list, or an exception of that request). The same
  holds when the service has finitely many cursors and, as long as the loop runs, never
  hands back a cursor the loop has sent before: then some answer gives no cursor. A
  missing cursor is the only way out with a list: when the function returns one, some
  request of its run was answered with a page whose cursor is null or empty.
\<close>

theorem dashboard_pagination_terminates:
  "(nth_cursor svcs (Suc n) = None \<longrightarrow>
      (\<exists>res. get_dashboards_created_last_minute svcs w = Some res))
 \<and> (finite C \<and> (\<forall>cur c. next_cursor svcs cur = Some c \<longrightarrow> c \<in> C)
      \<and> (\<forall>i j. i < j \<and> (\<forall>k<j. nth_cursor svcs (Suc k) \<noteq> None)
                 \<longrightarrow> nth_cursor svcs i \<noteq> nth_cursor svcs j) \<longrightarrow>
      (\<exists>m. nth_cursor svcs (Suc m) = None)
      \<and> (\<exists>res. get_dashboards_created_last_minute svcs w = Some res))
 \<and> (get_dashboards_created_last_minute svcs w = Some (Inr ids, w1) \<longrightarrow>
      (\<exists>k r. (\<forall>i<k. nth_cursor svcs (Suc i) \<noteq> None)
         \<and> search_audit_logs svcs (dashboard_search_body (nth_cursor svcs k)) = Inr r
         \<and> page_after r = Inr None))"
proof (intro conjI impI)
  assume "nth_cursor svcs (Suc n) = None"
  then show "\<exists>res. get_dashboards_created_last_minute svcs w = Some res"
    using dashboard_pages_stops [where svcs = svcs and n = n and cur = None and acc = "[]" and w = w]
    by (simp add: get_dashboards_created_last_minute_def nth_cursor_def del: funpow.simps)
next
  assume h: "finite C \<and> (\<forall>cur c. next_cursor svcs cur = Some c \<longrightarrow> c \<in> C)
      \<and> (\<forall>i j. i < j \<and> (\<forall>k<j. nth_cursor svcs (Suc k) \<noteq> None)
                 \<longrightarrow> nth_cursor svcs i \<noteq> nth_cursor svcs j)"
  then obtain m where m: "nth_cursor svcs (Suc m) = None"
    using finitely_many_fresh_cursors_end [of C svcs] by blast
  then show "\<exists>m. nth_cursor svcs (Suc m) = None" by blast
  from m show "\<exists>res. get_dashboards_created_last_minute svcs w = Some res"
    using dashboard_pages_stops [where svcs = svcs and n = m and cur = None and acc = "[]" and w = w]
    by (simp add: get_dashboards_created_last_minute_def nth_cursor_def del: funpow.simps)
next
  assume "get_dashboards_created_last_minute svcs w = Some (Inr ids, w1)"
  then show "\<exists>k r. (\<forall>i<k. nth_cursor svcs (Suc i) \<noteq> None)
         \<and> search_audit_logs svcs (dashboard_search_body (nth_cursor svcs k)) = Inr r
         \<and> page_after r = Inr None"
    using dashboard_pages_returns_only_at_end
      [where svcs = svcs and cur = None and acc = "[]" and w = w and res = "(Inr ids, w1)" and ids = ids]
    by (simp add: get_dashboards_created_last_minute_def nth_cursor_def del: funpow.simps)
qed

theorem dashboard_pagination_terminates_witness:
  "nth_cursor demo_services (Suc 1) = None
   \<and> finite {''p2''}
   \<and> next_cursor demo_services None = Some ''p2''
   \<and> next_cursor demo_services (Some ''p2'') = None
   \<and> get_dashboards_created_last_minute demo_services empty_world
       = Some (Inr [''d1'', ''d2'', ''d3''],
               empty_world\<lparr>calls := [SearchAuditLogs (dashboard_search_body None),
                                    SearchAuditLogs (dashboard_search_body (Some ''p2''))]\<rparr>)
   \<and> (\<exists>m. nth_cursor demo_services (Suc m) = None)
   \<and> (\<exists>k r. search_audit_logs demo_services (dashboard_search_body (nth_cursor demo_services k))
             = Inr r
         \<and> page_after r = Inr None)"
proof -
  have c0: "next_cursor demo_services None = Some ''p2''"
    by (simp add: next_cursor_def cursor_of_def demo_services_def page_def
        page_after_def read_attr_def dashboard_search_body_def)
  have c1: "next_cursor demo_services (Some ''p2'') = None"
    by (simp add: next_cursor_def cursor_of_def demo_services_def page_def
        page_after_def read_attr_def dashboard_search_body_def)
  have n1: "nth_cursor demo_services (Suc 0) = Some ''p2''"
    by (simp add: nth_cursor_def next_cursor_def cursor_of_def demo_services_def page_def
        page_after_def read_attr_def dashboard_search_body_def)
  have n2: "nth_cursor demo_services (Suc 1) = None"
    by (simp add: nth_cursor_def next_cursor_def cursor_of_def demo_services_def page_def
        page_after_def read_attr_def dashboard_search_body_def)
  have ran: "\<forall>cur c. next_cursor demo_services cur = Some c \<longrightarrow> c \<in> {''p2''}"
    by (auto simp: next_cursor_def cursor_of_def demo_services_def page_def
        page_after_def read_attr_def dashboard_search_body_def monitor_search_body_def
        creator_search_body_def split: if_splits)
  have fresh: "\<forall>i j. i < j \<and> (\<forall>k<j. nth_cursor demo_services (Suc k) \<noteq> None)
              \<longrightarrow> nth_cursor demo_services i \<noteq> nth_cursor demo_services j"
  proof (intro allI impI)
    fix i j :: nat
    assume h: "i < j \<and> (\<forall>k<j. nth_cursor demo_services (Suc k) \<noteq> None)"
    have "\<not> 1 < j" using h n2 by blast
    with h have "i = 0" and "j = Suc 0" by auto
    then show "nth_cursor demo_services i \<noteq> nth_cursor demo_services j"
      using n1 by (simp add: nth_cursor_def)
  qed
  have ret: "get_dashboards_created_last_minute demo_services empty_world
       = Some (Inr [''d1'', ''d2'', ''d3''],
               empty_world\<lparr>calls := [SearchAuditLogs (dashboard_search_body None),
                                    SearchAuditLogs (dashboard_search_body (Some ''p2''))]\<rparr>)"
    using dashboard_pagination_with_explicit_end [of demo_services
      "[page [event ''d1'' ''u1'', event ''d2'' ''u2''] (Some ''p2''), page [event ''d3'' ''u3''] None]"
      "[''d1'', ''d2'', ''d3'']" empty_world]
    by (simp add: demo_services_def page_def event_def page_after_def read_attr_def
        cursor_of_def asset_id_def dashboard_search_body_def empty_world_def)
  note th = dashboard_pagination_terminates
      [of demo_services 1 empty_world "{''p2''}" "[''d1'', ''d2'', ''d3'']"
          "empty_world\<lparr>calls := [SearchAuditLogs (dashboard_search_body None),
                                 SearchAuditLogs (dashboard_search_body (Some ''p2''))]\<rparr>"]
  show ?thesis
  proof -
    have fin: "finite {''p2''}" by simp
    from th [THEN conjunct2, THEN conjunct1] fin ran fresh
    have m: "\<exists>m. nth_cursor demo_services (Suc m) = None" by blast
    from th [THEN conjunct2, THEN conjunct2] ret
    have "\<exists>k r. (\<forall>i<k. nth_cursor demo_services (Suc i) \<noteq> None)
         \<and> search_audit_logs demo_services (dashboard_search_body (nth_cursor demo_services k))
             = Inr r
         \<and> page_after r = Inr None" by blast
    then have e: "\<exists>k r. search_audit_logs demo_services
             (dashboard_search_body (nth_cursor demo_services k)) = Inr r
         \<and> page_after r = Inr None" by blast
    show ?thesis
      using n2 fin c0 c1 ret m e by (intro conjI)
  qed
qed

lemma asset_ids_take: "asset_ids evs = Inr ids \<Longrightarrow> asset_ids (take n evs) = Inr (take n ids)"
proof (induction evs arbitrary: ids n)
  case Nil
  then show ?case by auto
next
  case (Cons ev evs)
  then show ?case
    by (cases n) (auto split: sum.splits)
qed

text \<open>
  Claim C4. \<open>get_monitors_created_last_minute\<close> issues exactly one audit-log search,
  with limit 10 and no cursor. When the service answers it with the first ten events of
  the window, the result is the first ten asset ids, whatever cursor the answer carries,
  and nothing is printed: the rest of the window is left out. With no event the result is
  the empty list, not an error.
\<close>

theorem monitor_detector_single_page:
  "calls (snd (get_monitors_created_last_minute svcs w))
     = calls w @ [SearchAuditLogs monitor_search_body]
 \<and> req_page monitor_search_body = Some \<lparr>limit = 10, cursor = None\<rparr>
 \<and> (search_audit_logs svcs monitor_search_body = Inr response
      \<and> data response = take 10 window \<and> map asset_id window = map Inr ids
      \<longrightarrow> get_monitors_created_last_minute svcs w
            = (Inr (take 10 ids), called (SearchAuditLogs monitor_search_body) w))
 \<and> (search_audit_logs svcs monitor_search_body = Inr response \<and> data response = []
      \<longrightarrow> get_monitors_created_last_minute svcs w
            = (Inr [], called (SearchAuditLogs monitor_search_body) w))"
proof (intro conjI impI)
  show "calls (snd (get_monitors_created_last_minute svcs w))
     = calls w @ [SearchAuditLogs monitor_search_body]"
    by (simp add: get_monitors_created_last_minute_def api_search_audit_logs_def called_def
        split: sum.split)
  show "req_page monitor_search_body = Some \<lparr>limit = 10, cursor = None\<rparr>"
    by (simp add: monitor_search_body_def)
next
  assume h: "search_audit_logs svcs monitor_search_body = Inr response
      \<and> data response = take 10 window \<and> map asset_id window = map Inr ids"
  then have "asset_ids (data response) = Inr (take 10 ids)"
    by (simp add: asset_ids_take asset_ids_map)
  with h show "get_monitors_created_last_minute svcs w
            = (Inr (take 10 ids), called (SearchAuditLogs monitor_search_body) w)"
    by (simp add: get_monitors_created_last_minute_def api_search_audit_logs_def)
next
  assume "search_audit_logs svcs monitor_search_body = Inr response \<and> data response = []"
  then show "get_monitors_created_last_minute svcs w
            = (Inr [], called (SearchAuditLogs monitor_search_body) w)"
    by (simp add: get_monitors_created_last_minute_def api_search_audit_logs_def)
qed

theorem monitor_detector_single_page_witness:
  "search_audit_logs demo_services monitor_search_body
     = Inr (page (map (\<lambda>m. event m ''u1'')
              [''1'', ''2'', ''11'', ''12'', ''13'', ''14'', ''15'', ''16'', ''17'', ''18'']) (Some ''m2''))
   \<and> get_monitors_created_last_minute demo_services empty_world
     = (Inr [''1'', ''2'', ''11'', ''12'', ''13'', ''14'', ''15'', ''16'', ''17'', ''18''],
        called (SearchAuditLogs monitor_search_body) empty_world)
   \<and> get_monitors_created_last_minute endless_audit_log empty_world
     = (Inr [], called (SearchAuditLogs monitor_search_body) empty_world)"
  using monitor_detector_single_page [of demo_services empty_world
      "page (map (\<lambda>m. event m ''u1'')
              [''1'', ''2'', ''11'', ''12'', ''13'', ''14'', ''15'', ''16'', ''17'', ''18'']) (Some ''m2'')"
      "map (\<lambda>m. event m ''u1'')
         [''1'', ''2'', ''11'', ''12'', ''13'', ''14'', ''15'', ''16'', ''17'', ''18'', ''19'', ''20'']"
      "[''1'', ''2'', ''11'', ''12'', ''13'', ''14'', ''15'', ''16'', ''17'', ''18'', ''19'', ''20'']"]
    monitor_detector_single_page [of endless_audit_log empty_world
      "\<lparr>data = [], meta = Value \<lparr>meta_page = Value \<lparr>after = Value ''c''\<rparr>\<rparr>\<rparr>"]
  by (simp add: demo_services_def endless_audit_log_def page_def event_def asset_id_def
      monitor_search_body_def dashboard_search_body_def)


section \<open>Properties of the orchestrators\<close>

lemma get_team_uuid_by_user_id_world:
  "policies (snd (get_team_uuid_by_user_id svcs u w)) = policies w
   \<and> calls (snd (get_team_uuid_by_user_id svcs u w)) = calls w @ [GetUserMemberships u]"
  by (simp add: get_team_uuid_by_user_id_def try_except_def api_get_user_memberships_def
      called_def print_def split: sum.split)

lemma get_team_uuid_by_name_world:
  "policies (snd (get_team_uuid_by_name svcs n w)) = policies w
   \<and> calls (snd (get_team_uuid_by_name svcs n w)) = calls w @ [ListTeams n]"
  by (simp add: get_team_uuid_by_name_def try_except_def api_list_teams_def
      called_def print_def split: sum.split)

lemma get_dashboard_creator_user_id_world:
  "policies (snd (get_dashboard_creator_user_id svcs d w)) = policies w
   \<and> calls (snd (get_dashboard_creator_user_id svcs d w))
       = calls w @ [SearchAuditLogs (creator_search_body d)]
   \<and> printed (snd (get_dashboard_creator_user_id svcs d w)) = printed w"
  by (simp add: get_dashboard_creator_user_id_def api_search_audit_logs_def called_def
      split: sum.split list.split)

lemma get_monitor_team_world:
  "policies (snd (get_monitor_team svcs m w)) = policies w
   \<and> calls (snd (get_monitor_team svcs m w)) = calls w @ [GetMonitor m]"
  by (simp add: get_monitor_team_def api_get_monitor_def called_def
      split: sum.split option.split)

text \<open>
  Claim C7. In the dashboard script, when the owner lookup yields \<open>None\<close> for an id,
  the only call issued for that id is the lookup's own audit-log search: no membership
  listing, no policy write; a line is printed and the loop goes on with the next id. When
  the owner is found and the team lookup yields \<open>None\<close>, the calls for that id are the
  audit-log search and the membership listing: no policy write. In the monitor script,
  when the team lookup yields \<open>None\<close>, the calls for that id are the monitor fetch and
  the team search: no policy write; the loop goes on with the next id.
\<close>

theorem orchestrator_skips_without_owner_or_team:
  "(fst (get_dashboard_creator_user_id svcs d w) = Inr None \<longrightarrow>
      (\<exists>w1. process_dashboard svcs d w = (Inr (), w1)
         \<and> calls w1 = calls w @ [SearchAuditLogs (creator_search_body d)]
         \<and> policies w1 = policies w
         \<and> printed w1 = printed w @ [NoUserFound d]
         \<and> for_each (process_dashboard svcs) (d # rest) w
             = for_each (process_dashboard svcs) rest w1))
 \<and> (fst (get_dashboard_creator_user_id svcs d w) = Inr (Some u) \<and> u \<noteq> []
      \<and> fst (get_team_uuid_by_user_id svcs u (snd (get_dashboard_creator_user_id svcs d w)))
          = Inr None \<longrightarrow>
      (\<exists>w2. process_dashboard svcs d w = (Inr (), w2)
         \<and> calls w2 = calls w @ [SearchAuditLogs (creator_search_body d), GetUserMemberships u]
         \<and> policies w2 = policies w
         \<and> last (printed w2) = NoTeamFoundForUser u d
         \<and> for_each (process_dashboard svcs) (d # rest) w
             = for_each (process_dashboard svcs) rest w2))
 \<and> (fst (get_monitor_team svcs m w) = Inr name
      \<and> fst (get_team_uuid_by_name svcs name (snd (get_monitor_team svcs m w))) = Inr None \<longrightarrow>
      (\<exists>w2. process_monitor svcs m w = (Inr (), w2)
         \<and> calls w2 = calls w @ [GetMonitor m, ListTeams name]
         \<and> policies w2 = policies w
         \<and> last (printed w2) = TeamNotFoundForMonitor m
         \<and> for_each (process_monitor svcs) (m # rest) w
             = for_each (process_monitor svcs) rest w2))"
proof (intro conjI impI)
  assume h: "fst (get_dashboard_creator_user_id svcs d w) = Inr None"
  obtain r w0 where g: "get_dashboard_creator_user_id svcs d w = (r, w0)" by fastforce
  with h have r: "r = Inr None" by simp
  have p: "process_dashboard svcs d w = (Inr (), print (NoUserFound d) w0)"
    by (simp add: process_dashboard_def g r try_except_def)
  show "\<exists>w1. process_dashboard svcs d w = (Inr (), w1)
         \<and> calls w1 = calls w @ [SearchAuditLogs (creator_search_body d)]
         \<and> policies w1 = policies w
         \<and> printed w1 = printed w @ [NoUserFound d]
         \<and> for_each (process_dashboard svcs) (d # rest) w
             = for_each (process_dashboard svcs) rest w1"
    using get_dashboard_creator_user_id_world [of svcs d w]
    by (simp add: p g print_def)
next
  assume h: "fst (get_dashboard_creator_user_id svcs d w) = Inr (Some u) \<and> u \<noteq> []
      \<and> fst (get_team_uuid_by_user_id svcs u (snd (get_dashboard_creator_user_id svcs d w)))
          = Inr None"
  obtain r w0 where g: "get_dashboard_creator_user_id svcs d w = (r, w0)" by fastforce
  obtain t w1 where g2: "get_team_uuid_by_user_id svcs u w0 = (t, w1)" by fastforce
  from h g g2 have r: "r = Inr (Some u)" and u: "u \<noteq> []" and t: "t = Inr None" by simp_all
  have p: "process_dashboard svcs d w = (Inr (), print (NoTeamFoundForUser u d) w1)"
    by (simp add: process_dashboard_def g r u g2 t try_except_def)
  show "\<exists>w2. process_dashboard svcs d w = (Inr (), w2)
         \<and> calls w2 = calls w @ [SearchAuditLogs (creator_search_body d), GetUserMemberships u]
         \<and> policies w2 = policies w
         \<and> last (printed w2) = NoTeamFoundForUser u d
         \<and> for_each (process_dashboard svcs) (d # rest) w
             = for_each (process_dashboard svcs) rest w2"
    using get_dashboard_creator_user_id_world [of svcs d w]
      get_team_uuid_by_user_id_world [of svcs u w0]
    by (simp add: p g g2 print_def)
next
  assume h: "fst (get_monitor_team svcs m w) = Inr name
      \<and> fst (get_team_uuid_by_name svcs name (snd (get_monitor_team svcs m w))) = Inr None"
  obtain r w0 where g: "get_monitor_team svcs m w = (r, w0)" by fastforce
  obtain t w1 where g2: "get_team_uuid_by_name svcs name w0 = (t, w1)" by fastforce
  from h g g2 have r: "r = Inr name" and t: "t = Inr None" by simp_all
  have p: "process_monitor svcs m w = (Inr (), print (TeamNotFoundForMonitor m) w1)"
    by (simp add: process_monitor_def g r g2 t)
  show "\<exists>w2. process_monitor svcs m w = (Inr (), w2)
         \<and> calls w2 = calls w @ [GetMonitor m, ListTeams name]
         \<and> policies w2 = policies w
         \<and> last (printed w2) = TeamNotFoundForMonitor m
         \<and> for_each (process_monitor svcs) (m # rest) w
             = for_each (process_monitor svcs) rest w2"
    using get_monitor_team_world [of svcs m w] get_team_uuid_by_name_world [of svcs name w0]
    by (simp add: p g g2 print_def)
qed

theorem orchestrator_skips_without_owner_or_team_witness:
  "fst (get_dashboard_creator_user_id demo_services ''d2'' empty_world) = Inr None
   \<and> calls (snd (process_dashboard demo_services ''d2'' empty_world))
       = [SearchAuditLogs (creator_search_body ''d2'')]
   \<and> fst (get_dashboard_creator_user_id demo_services ''d3'' empty_world) = Inr (Some ''u3'')
   \<and> calls (snd (process_dashboard demo_services ''d3'' empty_world))
       = [SearchAuditLogs (creator_search_body ''d3''), GetUserMemberships ''u3'']
   \<and> fst (get_monitor_team demo_services ''1'' empty_world) = Inr ''ghost''
   \<and> calls (snd (process_monitor demo_services ''1'' empty_world))
       = [GetMonitor ''1'', ListTeams ''ghost'']"
proof -
  have a: "fst (get_dashboard_creator_user_id demo_services ''d2'' empty_world) = Inr None"
    by (simp add: evaluation_defs demo_services_def)
  have b: "fst (get_dashboard_creator_user_id demo_services ''d3'' empty_world) = Inr (Some ''u3'')"
    by (simp add: evaluation_defs demo_services_def)
  have b2: "fst (get_team_uuid_by_user_id demo_services ''u3''
              (snd (get_dashboard_creator_user_id demo_services ''d3'' empty_world))) = Inr None"
    by (simp add: evaluation_defs demo_services_def)
  have c: "fst (get_monitor_team demo_services ''1'' empty_world) = Inr ''ghost''"
    by (simp add: evaluation_defs demo_services_def)
  have c2: "fst (get_team_uuid_by_name demo_services ''ghost''
              (snd (get_monitor_team demo_services ''1'' empty_world))) = Inr None"
    by (simp add: evaluation_defs demo_services_def)
  show ?thesis
    using orchestrator_skips_without_owner_or_team [of demo_services "''d2''" empty_world "[]" "''u3''" "''1''" "''ghost''"]
      orchestrator_skips_without_owner_or_team [of demo_services "''d3''" empty_world "[]" "''u3''" "''1''" "''ghost''"]
      a b b2 c c2
    by (auto simp: empty_world_def)
qed

subsection \<open>Exceptions while one resource is processed\<close>

text \<open>
  The dashboard loop wraps each iteration in its own handler: an iteration never raises,
  so every id of the batch is visited.
\<close>

lemma set_dashboard_permissions_calls:
  "\<exists>c. calls (snd (set_dashboard_permissions svcs t d w)) = calls w @ [c]"
  by (simp add: set_dashboard_permissions_def api_update_restriction_policy_def called_def
      Let_def split: option.split)

lemma process_dashboard_never_raises:
  "\<exists>w1 cs. process_dashboard svcs d w = (Inr (), w1)
     \<and> calls w1 = calls w @ SearchAuditLogs (creator_search_body d) # cs"
proof -
  obtain r w0 where g: "get_dashboard_creator_user_id svcs d w = (r, w0)" by fastforce
  have c0: "calls w0 = calls w @ [SearchAuditLogs (creator_search_body d)]"
    using get_dashboard_creator_user_id_world [of svcs d w] g by simp
  show ?thesis
  proof (cases r)
    case (Inl e)
    then show ?thesis
      by (simp add: process_dashboard_def g try_except_def print_def c0)
  next
    case (Inr user_id)
    show ?thesis
    proof (cases "truthy user_id")
      case False
      then show ?thesis
        by (simp add: process_dashboard_def g Inr try_except_def print_def c0)
    next
      case True
      obtain t w1 where g2: "get_team_uuid_by_user_id svcs (the user_id) w0 = (t, w1)"
        by fastforce
      have c1: "calls w1 = calls w0 @ [GetUserMemberships (the user_id)]"
        using get_team_uuid_by_user_id_world [of svcs "the user_id" w0] g2 by simp
      obtain team_uuid where t: "t = Inr team_uuid"
        using get_team_uuid_by_user_id_never_raises [of svcs "the user_id" w0] g2 by auto
      show ?thesis
      proof (cases "truthy team_uuid")
        case False
        then show ?thesis
          by (simp add: process_dashboard_def g Inr True g2 t try_except_def print_def c0 c1)
      next
        case tt: True
        obtain u w2 where g3: "set_dashboard_permissions svcs (the team_uuid) d w1 = (u, w2)"
          by fastforce
        obtain c where c2: "calls w2 = calls w1 @ [c]"
          using set_dashboard_permissions_calls [of svcs "the team_uuid" d w1] g3 by auto
        show ?thesis
          by (cases u)
             (simp_all add: process_dashboard_def g Inr True g2 t tt g3 try_except_def print_def
                c0 c1 c2)
      qed
    qed
  qed
qed

lemma dashboard_loop_visits_all:
  "\<exists>w1. for_each (process_dashboard svcs) ids w = (Inr (), w1)
     \<and> set (calls w) \<union> (\<lambda>d. SearchAuditLogs (creator_search_body d)) ` set ids
         \<subseteq> set (calls w1)"
proof (induction ids arbitrary: w)
  case Nil
  then show ?case by simp
next
  case (Cons d ids)
  obtain w0 cs where p: "process_dashboard svcs d w = (Inr (), w0)"
    and c: "calls w0 = calls w @ SearchAuditLogs (creator_search_body d) # cs"
    using process_dashboard_never_raises [of svcs d w] by blast
  obtain w1 where "for_each (process_dashboard svcs) ids w0 = (Inr (), w1)"
    and "set (calls w0) \<union> (\<lambda>d. SearchAuditLogs (creator_search_body d)) ` set ids
         \<subseteq> set (calls w1)"
    using Cons.IH [of w0] by blast
  then show ?case
    using p c by auto
qed

lemma failing_writer_pages:
  "get_dashboards_created_last_minute failing_writer empty_world =
     Some (Inr [''1'', ''2''],
           empty_world\<lparr>calls := [SearchAuditLogs (dashboard_search_body None)]\<rparr>)"
  using dashboard_pages_serves [of failing_writer None
      "[page [event ''1'' ''u1'', event ''2'' ''u1''] None]" "[''1'', ''2'']" "[]" empty_world]
  by (simp add: get_dashboards_created_last_minute_def failing_writer_def page_def event_def
      page_after_def read_attr_def asset_id_def empty_world_def)

text \<open>
  Claim C1, at the batch \<open>1, 2\<close> with the policy write refused for resource \<open>1\<close>.
  The monitor script has no handler inside its loop: the exception leaves the loop, is
  printed once by the outer handler, and monitor \<open>2\<close> is never fetched nor given a
  policy. The dashboard script on the same services prints the failure for dashboard
  \<open>1\<close> and sets the permissions of dashboard \<open>2\<close>.
\<close>

theorem monitor_batch_aborts_at_first_exception:
  "GetMonitor ''2'' \<notin> set (calls (lambda_handler_monitor failing_writer empty_world))
   \<and> policies (lambda_handler_monitor failing_writer empty_world) ''monitor:2'' = None
   \<and> printed (lambda_handler_monitor failing_writer empty_world)
       = [ErrorOccurred (ApiException ''403'')]
   \<and> map_option printed (lambda_handler_dashboard failing_writer empty_world)
       = Some [FailedToProcess ''1'' (ApiException ''403''), PermissionsSet ''2'']"
proof -
  have "lambda_handler_dashboard failing_writer empty_world =
      Some (snd (try_except
        (for_each (process_dashboard failing_writer) [''1'', ''2'']
           (empty_world\<lparr>calls := [SearchAuditLogs (dashboard_search_body None)]\<rparr>))
        (\<lambda>e w1. (Inr (), print (ErrorOccurred e) w1))))"
    by (simp add: lambda_handler_dashboard_def failing_writer_pages)
  then have d: "map_option printed (lambda_handler_dashboard failing_writer empty_world)
       = Some [FailedToProcess ''1'' (ApiException ''403''), PermissionsSet ''2'']"
    by (simp add: evaluation_defs failing_writer_def)
  have "GetMonitor ''2'' \<notin> set (calls (lambda_handler_monitor failing_writer empty_world))"
    by (simp add: lambda_handler_monitor_def evaluation_defs failing_writer_def)
  moreover have "policies (lambda_handler_monitor failing_writer empty_world) ''monitor:2'' = None"
    by (simp add: lambda_handler_monitor_def evaluation_defs failing_writer_def)
  moreover have "printed (lambda_handler_monitor failing_writer empty_world)
       = [ErrorOccurred (ApiException ''403'')]"
    by (simp add: lambda_handler_monitor_def evaluation_defs failing_writer_def)
  ultimately show ?thesis using d by simp
qed


end
